theory Spec2Isabelle
  imports Complex_Main "HOL-Library.Word"
begin

section \<open>Onyx: textures and windows\<close>

text \<open>
  A shallow embedding of \<^verbatim>\<open>Onyx/src/Texture.cpp\<close> and of the window lifecycle declared
  in \<^verbatim>\<open>Onyx/src/Window.h\<close>. The texture code is a straight line of OpenGL calls, so
  the model threads one \<open>world\<close> value through them: the part of the OpenGL state the
  calls change, the CPU buffers that image data points to, and the sequence of calls made
  so far.
\<close>

subsection \<open>Machine types\<close>

type_synonym uint = "32 word"
type_synonym GLuint = "32 word"
type_synonym ubyte = "8 word"

text \<open>A pointer to a CPU buffer; \<open>0\<close> is \<^verbatim>\<open>nullptr\<close>.\<close>

type_synonym addr = nat

text \<open>The OpenGL constants that \<^verbatim>\<open>Texture.cpp\<close> passes, kept apart as an enumeration.\<close>

datatype GLenum =
    GL_TEXTURE_2D
  | GL_TEXTURE_WRAP_S
  | GL_TEXTURE_WRAP_T
  | GL_TEXTURE_MIN_FILTER
  | GL_TEXTURE_MAG_FILTER
  | GL_MIRRORED_REPEAT
  | GL_NEAREST
  | GL_LINEAR
  | GL_RGB
  | GL_RGBA
  | GL_UNSIGNED_BYTE

subsection \<open>The calls the code makes\<close>

text \<open>
  The arguments of one \<^verbatim>\<open>glTexImage2D\<close> call, in the order of the C prototype, and
  \<open>u_bytes\<close>: what the buffer behind the pixel pointer held when the call was made
  (\<open>None\<close> for a pointer to no live buffer).
\<close>

record upload =
  u_target :: GLenum
  u_level :: int
  u_internalformat :: GLenum
  u_width :: int
  u_height :: int
  u_border :: int
  u_format :: GLenum
  u_type :: GLenum
  u_pixels :: addr
  u_bytes :: "ubyte list option"

text \<open>
  One entry per call that leaves \<^verbatim>\<open>Texture.cpp\<close>. \<open>GlGenTextures n names\<close> records
  the names the driver wrote back; \<open>GlDeleteTextures n names\<close> the names passed in.
\<close>

datatype call =
    GlGenTextures int "GLuint list"
  | GlBindTexture GLenum GLuint
  | GlTexParameteri GLenum GLenum GLenum
  | GlTexImage2D upload
  | GlGenerateMipmap GLenum
  | GlDeleteTextures int "GLuint list"
  | ImageData_dispose_call addr

subsection \<open>The state the calls act on\<close>

text \<open>
  Of the OpenGL context: the texture names in use, the name bound to
  \<^verbatim>\<open>GL_TEXTURE_2D\<close>, and \<open>pending\<close>, the names the driver hands out next. Which name
  \<^verbatim>\<open>glGenTextures\<close> returns is the driver's choice, not the program's, so the state
  carries that choice; an empty list is a driver that cannot produce a name.
\<close>

record gl_state =
  names :: "GLuint list"
  bound_2d :: GLuint
  pending :: "GLuint list"

record world =
  gl :: gl_state
  buffers :: "addr \<rightharpoonup> ubyte list"
  calls :: "call list"

text \<open>
  What OpenGL promises of \<^verbatim>\<open>glGenTextures\<close>: a returned name is not zero (zero is
  the default texture) and was not in use before the call.
\<close>

definition gl_ok :: "gl_state \<Rightarrow> bool" where
  "gl_ok g \<longleftrightarrow>
     0 \<notin> set (pending g) \<and> distinct (pending g) \<and> set (pending g) \<inter> set (names g) = {}"

definition emit :: "call \<Rightarrow> world \<Rightarrow> world" where
  "emit c w = w\<lparr>calls := calls w @ [c]\<rparr>"

text \<open>
  \<^verbatim>\<open>glGenTextures(1, &x)\<close>: the first argument is what \<^verbatim>\<open>x\<close> holds before the call,
  the first result what it holds after. A driver with no name to give leaves \<^verbatim>\<open>x\<close>
  as it was.
\<close>

definition glGenTextures1 :: "GLuint \<Rightarrow> world \<Rightarrow> GLuint \<times> world" where
  "glGenTextures1 x w =
     (case pending (gl w) of
        [] \<Rightarrow> (x, emit (GlGenTextures 1 []) w)
      | n # ns \<Rightarrow>
          (n, emit (GlGenTextures 1 [n])
                (w\<lparr>gl := (gl w)\<lparr>names := n # names (gl w), pending := ns\<rparr>\<rparr>)))"

definition glBindTexture :: "GLenum \<Rightarrow> GLuint \<Rightarrow> world \<Rightarrow> world" where
  "glBindTexture target texture w =
     emit (GlBindTexture target texture)
       (if target = GL_TEXTURE_2D then w\<lparr>gl := (gl w)\<lparr>bound_2d := texture\<rparr>\<rparr> else w)"

definition glTexParameteri :: "GLenum \<Rightarrow> GLenum \<Rightarrow> GLenum \<Rightarrow> world \<Rightarrow> world" where
  "glTexParameteri target pname param w = emit (GlTexParameteri target pname param) w"

definition glTexImage2D ::
  "GLenum \<Rightarrow> int \<Rightarrow> GLenum \<Rightarrow> int \<Rightarrow> int \<Rightarrow> int \<Rightarrow> GLenum \<Rightarrow> GLenum \<Rightarrow> addr \<Rightarrow> world \<Rightarrow> world" where
  "glTexImage2D target level internalformat width height border format type pixels w =
     emit (GlTexImage2D
             \<lparr>u_target = target, u_level = level, u_internalformat = internalformat,
              u_width = width, u_height = height, u_border = border, u_format = format,
              u_type = type, u_pixels = pixels, u_bytes = buffers w pixels\<rparr>) w"

definition glGenerateMipmap :: "GLenum \<Rightarrow> world \<Rightarrow> world" where
  "glGenerateMipmap target w = emit (GlGenerateMipmap target) w"

text \<open>
  \<^verbatim>\<open>glDeleteTextures(1, &x)\<close>: zero and names that are not in use are ignored; a
  deleted name that is bound leaves the binding at zero.
\<close>

definition glDeleteTextures1 :: "GLuint \<Rightarrow> world \<Rightarrow> world" where
  "glDeleteTextures1 x w =
     emit (GlDeleteTextures 1 [x])
       (if x \<noteq> 0 \<and> x \<in> set (names (gl w))
        then w\<lparr>gl := (gl w)\<lparr>names := removeAll x (names (gl w)),
                              bound_2d := (if bound_2d (gl w) = x then 0 else bound_2d (gl w))\<rparr>\<rparr>
        else w)"

subsection \<open>ImageData\<close>

text \<open>
  Modelled from the spec: class \<^verbatim>\<open>ImageData\<close> (its header and source are not among the
  sources). The spec gives it the getters \<^verbatim>\<open>getWidth()\<close>, \<^verbatim>\<open>getHeight()\<close>,
  \<^verbatim>\<open>getNChannels()\<close>, \<^verbatim>\<open>getData() -> raw bytes\<close> and \<^verbatim>\<open>dispose()\<close>, which disposes
  the CPU buffer. The object holds a pointer to its buffer, so a copy of the object shares
  the buffer. The spec does not say what \<^verbatim>\<open>dispose()\<close> leaves in the object's fields;
  the model leaves them as they were and no statement below reads them after a dispose.
\<close>

record ImageData =
  img_data :: addr
  img_width :: int
  img_height :: int
  img_nChannels :: int

definition getData :: "ImageData \<Rightarrow> addr" where
  "getData imageData = img_data imageData"

definition getWidth :: "ImageData \<Rightarrow> int" where
  "getWidth imageData = img_width imageData"

definition getHeight :: "ImageData \<Rightarrow> int" where
  "getHeight imageData = img_height imageData"

definition getNChannels :: "ImageData \<Rightarrow> int" where
  "getNChannels imageData = img_nChannels imageData"

definition ImageData_dispose :: "ImageData \<Rightarrow> world \<Rightarrow> ImageData \<times> world" where
  "ImageData_dispose imageData w =
     (imageData,
      emit (ImageData_dispose_call (img_data imageData))
        (w\<lparr>buffers := (buffers w)(img_data imageData := None)\<rparr>))"

text \<open>The precondition the spec puts on image data handed to a texture.\<close>

definition valid_image :: "ImageData \<Rightarrow> bool" where
  "valid_image imageData \<longleftrightarrow>
     0 < img_width imageData \<and> 0 < img_height imageData \<and>
     (img_nChannels imageData = 3 \<or> img_nChannels imageData = 4)"

subsection \<open>Texture\<close>

record Texture =
  tex :: uint

text \<open>\<^verbatim>\<open>Texture::Texture()\<close>\<close>

definition Texture_default :: Texture where
  "Texture_default = \<lparr>tex = 0\<rparr>"

text \<open>
  \<^verbatim>\<open>Texture::Texture(ImageData imageData)\<close>. The parameter is passed by value: the
  constructor works on its own copy of the object, which shares the caller's buffer, and
  the copy is gone when the constructor returns.
\<close>

definition Texture_ImageData :: "ImageData \<Rightarrow> world \<Rightarrow> Texture \<times> world" where
  "Texture_ImageData imageData w0 =
     (let t = \<lparr>tex = 0\<rparr>;
          (n, w) = glGenTextures1 (tex t) w0;
          t = t\<lparr>tex := n\<rparr>;
          w = glBindTexture GL_TEXTURE_2D (tex t) w;
          w = glTexParameteri GL_TEXTURE_2D GL_TEXTURE_WRAP_S GL_MIRRORED_REPEAT w;
          w = glTexParameteri GL_TEXTURE_2D GL_TEXTURE_WRAP_T GL_MIRRORED_REPEAT w;
          w = glTexParameteri GL_TEXTURE_2D GL_TEXTURE_MIN_FILTER GL_NEAREST w;
          w = glTexParameteri GL_TEXTURE_2D GL_TEXTURE_MAG_FILTER GL_LINEAR w;
          w = glTexImage2D GL_TEXTURE_2D 0
                (if getNChannels imageData = 4 then GL_RGBA else GL_RGB)
                (getWidth imageData) (getHeight imageData) 0
                (if getNChannels imageData = 4 then GL_RGBA else GL_RGB)
                GL_UNSIGNED_BYTE (getData imageData) w;
          w = glGenerateMipmap GL_TEXTURE_2D w;
          w = glBindTexture GL_TEXTURE_2D 0 w;
          (imageData, w) = ImageData_dispose imageData w
      in (t, w))"

text \<open>
  \<^verbatim>\<open>Texture::Texture(ImageData &imageData, bool disposeImageData)\<close>. The image data is
  passed by reference, so the caller's object is part of the result.
\<close>

definition Texture_ImageData_bool ::
  "ImageData \<Rightarrow> bool \<Rightarrow> world \<Rightarrow> Texture \<times> ImageData \<times> world" where
  "Texture_ImageData_bool imageData disposeImageData w0 =
     (let t = \<lparr>tex = 0\<rparr>;
          (n, w) = glGenTextures1 (tex t) w0;
          t = t\<lparr>tex := n\<rparr>;
          w = glBindTexture GL_TEXTURE_2D (tex t) w;
          w = glTexParameteri GL_TEXTURE_2D GL_TEXTURE_WRAP_S GL_MIRRORED_REPEAT w;
          w = glTexParameteri GL_TEXTURE_2D GL_TEXTURE_WRAP_T GL_MIRRORED_REPEAT w;
          w = glTexParameteri GL_TEXTURE_2D GL_TEXTURE_MIN_FILTER GL_NEAREST w;
          w = glTexParameteri GL_TEXTURE_2D GL_TEXTURE_MAG_FILTER GL_LINEAR w;
          w = glTexImage2D GL_TEXTURE_2D 0
                (if getNChannels imageData = 4 then GL_RGBA else GL_RGB)
                (getWidth imageData) (getHeight imageData) 0
                (if getNChannels imageData = 4 then GL_RGBA else GL_RGB)
                GL_UNSIGNED_BYTE (getData imageData) w;
          w = glGenerateMipmap GL_TEXTURE_2D w;
          w = glBindTexture GL_TEXTURE_2D 0 w;
          (imageData, w) =
            (if disposeImageData then ImageData_dispose imageData w else (imageData, w))
      in (t, imageData, w))"

text \<open>\<^verbatim>\<open>Texture::bind()\<close>\<close>

definition bind :: "Texture \<Rightarrow> world \<Rightarrow> world" where
  "bind t w = glBindTexture GL_TEXTURE_2D (tex t) w"

text \<open>\<^verbatim>\<open>Texture::getTextureID()\<close>\<close>

definition getTextureID :: "Texture \<Rightarrow> uint" where
  "getTextureID t = tex t"

text \<open>\<^verbatim>\<open>Texture::dispose()\<close>\<close>

definition Texture_dispose :: "Texture \<Rightarrow> world \<Rightarrow> Texture \<times> world" where
  "Texture_dispose t w0 =
     (let w = glDeleteTextures1 (tex t) w0;
          t = t\<lparr>tex := 0\<rparr>
      in (t, w))"

subsection \<open>Reading the call sequence\<close>

text \<open>The calls made between an earlier world and a later one.\<close>

definition new_calls :: "world \<Rightarrow> world \<Rightarrow> call list" where
  "new_calls w w' = drop (length (calls w)) (calls w')"

fun uploads :: "call list \<Rightarrow> upload list" where
  "uploads [] = []"
| "uploads (GlTexImage2D u # cs) = u # uploads cs"
| "uploads (c # cs) = uploads cs"

fun disposals :: "call list \<Rightarrow> addr list" where
  "disposals [] = []"
| "disposals (ImageData_dispose_call a # cs) = a # disposals cs"
| "disposals (c # cs) = disposals cs"

text \<open>
  The nine OpenGL calls both constructors make, for the name \<open>n\<close> that
  \<^verbatim>\<open>tex\<close> holds after \<^verbatim>\<open>glGenTextures\<close> (\<open>got\<close> is what the driver wrote back) and
  the buffer contents \<open>bytes\<close> the upload read.
\<close>

definition ctor_calls :: "GLuint list \<Rightarrow> GLuint \<Rightarrow> ImageData \<Rightarrow> ubyte list option \<Rightarrow> call list" where
  "ctor_calls got n imageData bytes =
     [GlGenTextures 1 got,
      GlBindTexture GL_TEXTURE_2D n,
      GlTexParameteri GL_TEXTURE_2D GL_TEXTURE_WRAP_S GL_MIRRORED_REPEAT,
      GlTexParameteri GL_TEXTURE_2D GL_TEXTURE_WRAP_T GL_MIRRORED_REPEAT,
      GlTexParameteri GL_TEXTURE_2D GL_TEXTURE_MIN_FILTER GL_NEAREST,
      GlTexParameteri GL_TEXTURE_2D GL_TEXTURE_MAG_FILTER GL_LINEAR,
      GlTexImage2D
        \<lparr>u_target = GL_TEXTURE_2D, u_level = 0,
         u_internalformat = (if img_nChannels imageData = 4 then GL_RGBA else GL_RGB),
         u_width = img_width imageData, u_height = img_height imageData, u_border = 0,
         u_format = (if img_nChannels imageData = 4 then GL_RGBA else GL_RGB),
         u_type = GL_UNSIGNED_BYTE, u_pixels = img_data imageData, u_bytes = bytes\<rparr>,
      GlGenerateMipmap GL_TEXTURE_2D,
      GlBindTexture GL_TEXTURE_2D 0]"

subsection \<open>Window\<close>

text \<open>
  Modelled from the spec: the bodies of the member functions of class \<^verbatim>\<open>Window\<close>
  (\<^verbatim>\<open>Window.h\<close> declares them and their fields; \<^verbatim>\<open>Window.cpp\<close> is not among the
  sources), and the collaborators \<^verbatim>\<open>Camera\<close>, \<^verbatim>\<open>InputHandler\<close> and
  \<^verbatim>\<open>TextRenderer\<close>. The definitions follow sections 3, 4.3 and 7 of the spec. The
  fields are those of \<^verbatim>\<open>Window.h\<close>, without the background colour, which no
  statement below reads. The type \<open>'f\<close> stands for \<^verbatim>\<open>float\<close>; the quotient of two
  buffer dimensions as floats is a parameter \<open>fdiv\<close> of the functions that compute it.
\<close>

datatype error = InitializationFault | PreconditionViolation

text \<open>
  Modelled from the spec: the backend's window behind a \<^verbatim>\<open>GLFWwindow*\<close>, as far as the
  spec speaks of it: its close flag and where it was last placed (on the primary monitor or
  not, and at what size).
\<close>

record native_window =
  should_close :: bool
  on_monitor :: bool
  placed_width :: int
  placed_height :: int

text \<open>
  Modelled from the spec: \<^verbatim>\<open>Camera\<close>, of which the spec uses \<^verbatim>\<open>isPerspective()\<close> and
  \<^verbatim>\<open>setAspectRatio(float)\<close>.
\<close>

record 'f Camera =
  perspective :: bool
  aspectRatio :: 'f

definition isPerspective :: "'f Camera \<Rightarrow> bool" where
  "isPerspective cam = perspective cam"

definition setAspectRatio :: "'f \<Rightarrow> 'f Camera \<Rightarrow> 'f Camera" where
  "setAspectRatio a cam = cam\<lparr>aspectRatio := a\<rparr>"

text \<open>Modelled from the spec: what the backend delivers to the four trampolines.\<close>

datatype 'f event =
    FramebufferSize int int
  | Key int int int int
  | MouseButton int int int
  | CursorPos 'f 'f

text \<open>
  The private fields of \<^verbatim>\<open>Window.h\<close>. The window owns its native handle, so the record
  holds the native window itself (\<open>None\<close> is the null handle). Camera, input handler and
  text renderer are not owned: the window holds references into the stores of
  \<open>process\<close>.
\<close>

record Window =
  p_window :: "native_window option"
  title :: string
  width :: int
  height :: int
  bufferWidth :: int
  bufferHeight :: int
  p_inputHandler :: "nat option"
  p_cam :: "nat option"
  p_textRenderer :: "nat option"
  fullscreen :: bool
  initialized :: bool

text \<open>
  Modelled from the spec: what is shared by the windows of a process: whether the backend
  library is initialised, the video mode of the primary monitor as the backend reports it
  and as the first \<^verbatim>\<open>init()\<close> cached it, and the objects that windows refer to:
  cameras, the buffer size each text overlay was last told, and the events each input
  router has received.
\<close>

record 'f process =
  backend_ready :: bool
  monitor :: "int \<times> int"
  primaryMonitorInfo :: "(int \<times> int) option"
  cameras :: "nat \<rightharpoonup> 'f Camera"
  overlays :: "nat \<rightharpoonup> int \<times> int"
  routers :: "nat \<rightharpoonup> 'f event list"

type_synonym 'f state = "Window \<times> 'f process"

text \<open>
  Modelled from the spec and the comments of \<^verbatim>\<open>Window.h\<close>:
  \<^verbatim>\<open>Window(title, width, height)\<close> and \<^verbatim>\<open>Window()\<close>, an uninitialized window. The
  spec gives the buffer dimensions no value before the first resize event; the model
  starts them at zero.
\<close>

definition Window_ctor :: "string \<Rightarrow> int \<Rightarrow> int \<Rightarrow> Window" where
  "Window_ctor t w h =
     \<lparr>p_window = None, title = t, width = w, height = h, bufferWidth = 0, bufferHeight = 0,
      p_inputHandler = None, p_cam = None, p_textRenderer = None,
      fullscreen = False, initialized = False\<rparr>"

definition Window_default :: Window where
  "Window_default = Window_ctor ''Onyx Window'' 800 600"

text \<open>
  Modelled from the spec: \<^verbatim>\<open>init()\<close>. \<open>created\<close> is the backend's answer: whether
  the library and the native window could be created. The steps are those of section 4.3:
  nothing on a window that is initialized; otherwise the library, the native window with
  the stored size, the monitor cache on the first call of the process, and the flag.
\<close>

definition Window_init :: "bool \<Rightarrow> 'f state \<Rightarrow> error + 'f state" where
  "Window_init created s =
     (case s of (win, p) \<Rightarrow>
        if initialized win then Inr (win, p)
        else if \<not> created then Inl InitializationFault
        else Inr
          (win\<lparr>p_window := Some \<lparr>should_close = False, on_monitor = False,
                                   placed_width = width win, placed_height = height win\<rparr>,
               initialized := True\<rparr>,
           p\<lparr>backend_ready := True,
             primaryMonitorInfo :=
               (case primaryMonitorInfo p of None \<Rightarrow> Some (monitor p) | Some m \<Rightarrow> Some m)\<rparr>))"

text \<open>
  Modelled from the spec: \<^verbatim>\<open>isOpen()\<close>, the backend's close flag, read on every call.
  On a window with no handle the call breaks the precondition of section 7.
\<close>

definition isOpen :: "Window \<Rightarrow> error + bool" where
  "isOpen win =
     (case p_window win of
        None \<Rightarrow> Inl PreconditionViolation
      | Some nw \<Rightarrow> Inr (\<not> should_close nw))"

text \<open>
  Modelled from the spec: \<^verbatim>\<open>close()\<close> signals the backend to mark the window closed.
\<close>

definition close :: "'f state \<Rightarrow> error + 'f state" where
  "close s =
     (case s of (win, p) \<Rightarrow>
        (case p_window win of
           None \<Rightarrow> Inl PreconditionViolation
         | Some nw \<Rightarrow> Inr (win\<lparr>p_window := Some (nw\<lparr>should_close := True\<rparr>)\<rparr>, p)))"

text \<open>
  Modelled from the spec: \<^verbatim>\<open>setFullscreen()\<close>, \<^verbatim>\<open>setWindowed()\<close> and
  \<^verbatim>\<open>toggleFullscreen()\<close>. The flag changes and the native window is placed again, at
  the cached video mode of the primary monitor for fullscreen, at the stored logical width
  and height for windowed.
\<close>

definition setFullscreen :: "'f state \<Rightarrow> error + 'f state" where
  "setFullscreen s =
     (case s of (win, p) \<Rightarrow>
        (case (p_window win, primaryMonitorInfo p) of
           (Some nw, Some (mw, mh)) \<Rightarrow>
             Inr (win\<lparr>p_window := Some (nw\<lparr>on_monitor := True, placed_width := mw,
                                              placed_height := mh\<rparr>),
                      fullscreen := True\<rparr>, p)
         | _ \<Rightarrow> Inl PreconditionViolation))"

definition setWindowed :: "'f state \<Rightarrow> error + 'f state" where
  "setWindowed s =
     (case s of (win, p) \<Rightarrow>
        (case p_window win of
           Some nw \<Rightarrow>
             Inr (win\<lparr>p_window := Some (nw\<lparr>on_monitor := False, placed_width := width win,
                                              placed_height := height win\<rparr>),
                      fullscreen := False\<rparr>, p)
         | None \<Rightarrow> Inl PreconditionViolation))"

definition toggleFullscreen :: "'f state \<Rightarrow> error + 'f state" where
  "toggleFullscreen s = (if fullscreen (fst s) then setWindowed s else setFullscreen s)"

text \<open>
  Modelled from the spec: \<^verbatim>\<open>setInputHandler\<close> and \<^verbatim>\<open>setCamera\<close>; the last reference
  written wins.
\<close>

definition setInputHandler :: "nat \<Rightarrow> 'f state \<Rightarrow> 'f state" where
  "setInputHandler r s = (case s of (win, p) \<Rightarrow> (win\<lparr>p_inputHandler := Some r\<rparr>, p))"

definition setCamera :: "nat \<Rightarrow> 'f state \<Rightarrow> 'f state" where
  "setCamera c s = (case s of (win, p) \<Rightarrow> (win\<lparr>p_cam := Some c\<rparr>, p))"

text \<open>
  Modelled from the spec: \<^verbatim>\<open>CB_framebufferSize\<close>, the framebuffer-size trampoline, on
  the window it recovers from the handle: the cached
  buffer size, then the camera if one is attached and perspective, then the text overlay if
  one is attached. A reference to an object that is gone is the caller's fault.
\<close>

definition CB_framebufferSize :: "(int \<Rightarrow> int \<Rightarrow> 'f) \<Rightarrow> int \<Rightarrow> int \<Rightarrow> 'f state \<Rightarrow> error + 'f state" where
  "CB_framebufferSize fdiv w h s =
     (case s of (win0, p0) \<Rightarrow>
        let win = win0\<lparr>bufferWidth := w, bufferHeight := h\<rparr>;
            r1 = (case p_cam win of
                    None \<Rightarrow> Inr p0
                  | Some c \<Rightarrow>
                      (case cameras p0 c of
                         None \<Rightarrow> Inl PreconditionViolation
                       | Some cam \<Rightarrow>
                           if isPerspective cam
                           then Inr (p0\<lparr>cameras := (cameras p0)(c \<mapsto> setAspectRatio (fdiv w h) cam)\<rparr>)
                           else Inr p0))
        in (case r1 of
              Inl e \<Rightarrow> Inl e
            | Inr p1 \<Rightarrow>
                (case p_textRenderer win of
                   None \<Rightarrow> Inr (win, p1)
                 | Some t \<Rightarrow>
                     (case overlays p1 t of
                        None \<Rightarrow> Inl PreconditionViolation
                      | Some _ \<Rightarrow> Inr (win, p1\<lparr>overlays := (overlays p1)(t \<mapsto> (w, h))\<rparr>)))))"

text \<open>
  Modelled from the spec: the key, mouse-button and cursor-position trampolines
  (\<^verbatim>\<open>CB_key\<close>, \<^verbatim>\<open>CB_mouseButton\<close>, \<^verbatim>\<open>CB_cursorPos\<close>) forward the event to the
  attached input router, and do nothing when none is attached.
\<close>

definition CB_input :: "'f event \<Rightarrow> 'f state \<Rightarrow> error + 'f state" where
  "CB_input ev s =
     (case s of (win, p) \<Rightarrow>
        (case p_inputHandler win of
           None \<Rightarrow> Inr (win, p)
         | Some r \<Rightarrow>
             (case routers p r of
                None \<Rightarrow> Inl PreconditionViolation
              | Some evs \<Rightarrow> Inr (win, p\<lparr>routers := (routers p)(r \<mapsto> evs @ [ev])\<rparr>))))"

fun dispatch :: "(int \<Rightarrow> int \<Rightarrow> 'f) \<Rightarrow> 'f event \<Rightarrow> 'f state \<Rightarrow> error + 'f state" where
  "dispatch fdiv (FramebufferSize w h) s = CB_framebufferSize fdiv w h s"
| "dispatch fdiv ev s = CB_input ev s"

fun poll :: "(int \<Rightarrow> int \<Rightarrow> 'f) \<Rightarrow> 'f event list \<Rightarrow> 'f state \<Rightarrow> error + 'f state" where
  "poll fdiv [] s = Inr s"
| "poll fdiv (ev # evs) s =
     (case dispatch fdiv ev s of Inl e \<Rightarrow> Inl e | Inr s' \<Rightarrow> poll fdiv evs s')"

text \<open>
  Modelled from the spec: \<^verbatim>\<open>startRender()\<close> clears and then polls: the pending events
  \<open>evs\<close> reach the
  trampolines here and nowhere else. \<^verbatim>\<open>endRender()\<close> presents the frame.
\<close>

definition startRender :: "(int \<Rightarrow> int \<Rightarrow> 'f) \<Rightarrow> 'f event list \<Rightarrow> 'f state \<Rightarrow> error + 'f state" where
  "startRender fdiv evs s =
     (if initialized (fst s) \<and> p_window (fst s) \<noteq> None then poll fdiv evs s
      else Inl PreconditionViolation)"

definition endRender :: "'f state \<Rightarrow> error + 'f state" where
  "endRender s =
     (if initialized (fst s) \<and> p_window (fst s) \<noteq> None then Inr s
      else Inl PreconditionViolation)"

text \<open>
  Modelled from the spec: \<^verbatim>\<open>Window::dispose()\<close> destroys the native handle and resets
  the flag; on a window
  with no handle (never initialized, or disposed before) it does nothing.
\<close>

definition Window_dispose :: "Window \<Rightarrow> Window" where
  "Window_dispose win =
     (case p_window win of
        None \<Rightarrow> win
      | Some nw \<Rightarrow> win\<lparr>p_window := None, initialized := False\<rparr>)"

text \<open>The operations of a window as data, to speak of every sequence of them.\<close>

datatype 'f op =
    Init bool
  | StartRender "'f event list"
  | EndRender
  | Close
  | SetFullscreen
  | SetWindowed
  | ToggleFullscreen
  | SetInputHandler nat
  | SetCamera nat
  | Dispose

fun step :: "(int \<Rightarrow> int \<Rightarrow> 'f) \<Rightarrow> 'f op \<Rightarrow> 'f state \<Rightarrow> error + 'f state" where
  "step fdiv (Init created) s = Window_init created s"
| "step fdiv (StartRender evs) s = startRender fdiv evs s"
| "step fdiv EndRender s = endRender s"
| "step fdiv Close s = close s"
| "step fdiv SetFullscreen s = setFullscreen s"
| "step fdiv SetWindowed s = setWindowed s"
| "step fdiv ToggleFullscreen s = toggleFullscreen s"
| "step fdiv (SetInputHandler r) s = Inr (setInputHandler r s)"
| "step fdiv (SetCamera c) s = Inr (setCamera c s)"
| "step fdiv Dispose s = Inr (Window_dispose (fst s), snd s)"

fun run :: "(int \<Rightarrow> int \<Rightarrow> 'f) \<Rightarrow> 'f op list \<Rightarrow> 'f state \<Rightarrow> error + 'f state" where
  "run fdiv [] s = Inr s"
| "run fdiv (x # xs) s =
     (case step fdiv x s of Inl e \<Rightarrow> Inl e | Inr s' \<Rightarrow> run fdiv xs s')"

text \<open>A window whose \<^verbatim>\<open>init()\<close> has succeeded and that has not been disposed.\<close>

definition ready :: "'f state \<Rightarrow> bool" where
  "ready s \<longleftrightarrow>
     initialized (fst s) \<and> p_window (fst s) \<noteq> None \<and> primaryMonitorInfo (snd s) \<noteq> None"

text \<open>A window that is initialized, has its handle, and whose close flag is not set.\<close>

definition open_inv :: "'f state \<Rightarrow> bool" where
  "open_inv s \<longleftrightarrow>
     initialized (fst s) \<and>
     (case p_window (fst s) of None \<Rightarrow> False | Some nw \<Rightarrow> \<not> should_close nw)"


subsection \<open>A concrete scene\<close>

text \<open>
  A 2 by 1 RGB image whose six bytes live at address 16, and a context with no texture yet
  whose driver hands out the names 1 and 2.
\<close>

definition example_image :: ImageData where
  "example_image = \<lparr>img_data = 16, img_width = 2, img_height = 1, img_nChannels = 3\<rparr>"

definition example_world :: world where
  "example_world =
     \<lparr>gl = \<lparr>names = [], bound_2d = 0, pending = [1, 2]\<rparr>,
      buffers = [16 \<mapsto> [255, 0, 0, 0, 255, 0]],
      calls = []\<rparr>"

text \<open>
  A process with a 1920 by 1080 monitor, a perspective camera 0 and an orthographic camera
  1; the default window after a successful \<^verbatim>\<open>init()\<close> in it; a few operations on it;
  and the quotient of two dimensions over the reals, standing for the one over floats.
\<close>

definition real_div :: "int \<Rightarrow> int \<Rightarrow> real" where
  "real_div a b = real_of_int a / real_of_int b"

definition example_process :: "real process" where
  "example_process =
     \<lparr>backend_ready = False, monitor = (1920, 1080), primaryMonitorInfo = None,
      cameras = [0 \<mapsto> \<lparr>perspective = True, aspectRatio = 1\<rparr>,
                 1 \<mapsto> \<lparr>perspective = False, aspectRatio = 1\<rparr>],
      overlays = Map.empty, routers = Map.empty\<rparr>"

definition example_window :: "real state" where
  "example_window =
     (\<lparr>p_window = Some \<lparr>should_close = False, on_monitor = False,
                          placed_width = 800, placed_height = 600\<rparr>,
       title = ''Onyx Window'', width = 800, height = 600, bufferWidth = 0, bufferHeight = 0,
       p_inputHandler = None, p_cam = None, p_textRenderer = None,
       fullscreen = False, initialized = True\<rparr>,
      example_process\<lparr>backend_ready := True, primaryMonitorInfo := Some (1920, 1080)\<rparr>)"

definition example_ops :: "real op list" where
  "example_ops =
     [SetCamera 0, StartRender [FramebufferSize 1600 900, Key 65 30 1 0],
      ToggleFullscreen, EndRender]"

section \<open>Textures\<close>

lemmas gl_defs = emit_def glGenTextures1_def glBindTexture_def glTexParameteri_def
  glTexImage2D_def glGenerateMipmap_def glDeleteTextures1_def

lemmas img_defs = getData_def getWidth_def getHeight_def getNChannels_def ImageData_dispose_def

lemmas example_defs = example_image_def example_world_def

lemmas texture_defs = Texture_ImageData_def Texture_ImageData_bool_def Texture_dispose_def
  getTextureID_def

lemma new_calls_append: "calls w' = calls w @ cs \<Longrightarrow> new_calls w w' = cs"
  by (simp add: new_calls_def)

text \<open>Both constructors in closed form, by what the driver answers.\<close>

lemma Texture_ImageData_bool_Cons:
  assumes "pending (gl w) = n # ns"
  shows "Texture_ImageData_bool imageData b w =
     (\<lparr>tex = n\<rparr>, imageData,
      w\<lparr>gl := \<lparr>names = n # names (gl w), bound_2d = 0, pending = ns\<rparr>,
        buffers := (if b then (buffers w)(img_data imageData := None) else buffers w),
        calls := calls w @ ctor_calls [n] n imageData (buffers w (img_data imageData))
                   @ (if b then [ImageData_dispose_call (img_data imageData)] else [])\<rparr>)"
  using assms
  by (simp add: Texture_ImageData_bool_def gl_defs img_defs ctor_calls_def Let_def)

lemma Texture_ImageData_bool_Nil:
  assumes "pending (gl w) = []"
  shows "Texture_ImageData_bool imageData b w =
     (\<lparr>tex = 0\<rparr>, imageData,
      w\<lparr>gl := (gl w)\<lparr>bound_2d := 0\<rparr>,
        buffers := (if b then (buffers w)(img_data imageData := None) else buffers w),
        calls := calls w @ ctor_calls [] 0 imageData (buffers w (img_data imageData))
                   @ (if b then [ImageData_dispose_call (img_data imageData)] else [])\<rparr>)"
  using assms
  by (simp add: Texture_ImageData_bool_def gl_defs img_defs ctor_calls_def Let_def)

lemma Texture_ImageData_as_bool:
  "Texture_ImageData imageData w =
     (case Texture_ImageData_bool imageData True w of (t, i, w') \<Rightarrow> (t, w'))"
  by (simp add: Texture_ImageData_bool_def Texture_ImageData_def Let_def split: prod.splits)

lemma Texture_dispose_eq:
  "Texture_dispose t w = (\<lparr>tex = 0\<rparr>, glDeleteTextures1 (tex t) w)"
  by (simp add: Texture_dispose_def Let_def)

lemma gl_ok_hd: "gl_ok g \<Longrightarrow> pending g = n # ns \<Longrightarrow> n \<noteq> 0 \<and> n \<notin> set (names g)"
  by (auto simp: gl_ok_def)

text \<open>The driver's promise survives a construction and a disposal.\<close>

lemma gl_ok_Texture_ImageData_bool:
  assumes "gl_ok (gl w)"
  shows "gl_ok (gl (snd (snd (Texture_ImageData_bool imageData b w))))"
proof (cases "pending (gl w)")
  case Nil
  with assms show ?thesis
    by (simp add: Texture_ImageData_bool_Nil gl_ok_def)
next
  case (Cons n ns)
  with assms show ?thesis
    by (auto simp: Texture_ImageData_bool_Cons gl_ok_def)
qed

lemma gl_ok_Texture_dispose:
  assumes "gl_ok (gl w)"
  shows "gl_ok (gl (snd (Texture_dispose t w)))"
  using assms
  by (auto simp: Texture_dispose_eq glDeleteTextures1_def emit_def gl_ok_def)

text \<open>
  C1: for image data with positive width and height and 3 or 4 channels, on a context
  whose driver keeps the promise of \<^verbatim>\<open>glGenTextures\<close> and has a name to give, either
  constructor yields a texture whose \<^verbatim>\<open>getTextureID()\<close> is not 0, and after
  \<^verbatim>\<open>dispose()\<close> on that texture \<^verbatim>\<open>getTextureID()\<close> is 0.
\<close>

theorem create_handle_then_dispose:
  assumes "valid_image imageData" and "gl_ok (gl w)" and "pending (gl w) \<noteq> []"
  shows "(case Texture_ImageData imageData w of (t, w1) \<Rightarrow>
            getTextureID t \<noteq> 0 \<and> getTextureID (fst (Texture_dispose t w1)) = 0) \<and>
         (case Texture_ImageData_bool imageData disposeImageData w of (t, i, w1) \<Rightarrow>
            getTextureID t \<noteq> 0 \<and> getTextureID (fst (Texture_dispose t w1)) = 0)"
proof -
  from assms(3) obtain n ns where p: "pending (gl w) = n # ns"
    by (cases "pending (gl w)") auto
  with assms(2) have "n \<noteq> 0" using gl_ok_hd by blast
  then show ?thesis
    by (simp add: Texture_ImageData_as_bool Texture_ImageData_bool_Cons [OF p]
        getTextureID_def Texture_dispose_eq)
qed

theorem create_handle_then_dispose_witness:
  "valid_image example_image \<and> gl_ok (gl example_world) \<and> pending (gl example_world) \<noteq> [] \<and>
   getTextureID (fst (Texture_ImageData example_image example_world)) = 1 \<and>
   getTextureID (fst (Texture_dispose (fst (Texture_ImageData example_image example_world))
                        (snd (Texture_ImageData example_image example_world)))) = 0"
  using create_handle_then_dispose [of example_image example_world True]
  by (simp add: example_defs valid_image_def gl_ok_def texture_defs gl_defs img_defs Let_def)

subsection \<open>The calls of a construction\<close>

lemma uploads_append: "uploads (xs @ ys) = uploads xs @ uploads ys"
  by (induction xs rule: uploads.induct) simp_all

lemma disposals_append: "disposals (xs @ ys) = disposals xs @ disposals ys"
  by (induction xs rule: disposals.induct) simp_all

lemma uploads_ctor_calls:
  "uploads (ctor_calls got n imageData bytes) =
     [\<lparr>u_target = GL_TEXTURE_2D, u_level = 0,
      u_internalformat = (if img_nChannels imageData = 4 then GL_RGBA else GL_RGB),
      u_width = img_width imageData, u_height = img_height imageData, u_border = 0,
      u_format = (if img_nChannels imageData = 4 then GL_RGBA else GL_RGB),
      u_type = GL_UNSIGNED_BYTE, u_pixels = img_data imageData, u_bytes = bytes\<rparr>]"
  by (simp add: ctor_calls_def)

lemma disposals_ctor_calls: "disposals (ctor_calls got n imageData bytes) = []"
  by (simp add: ctor_calls_def)

lemma ctor_new_calls:
  "new_calls w (snd (snd (Texture_ImageData_bool imageData b w))) =
     ctor_calls (take 1 (pending (gl w))) (tex (fst (Texture_ImageData_bool imageData b w)))
       imageData (buffers w (img_data imageData))
     @ (if b then [ImageData_dispose_call (img_data imageData)] else [])"
  by (cases "pending (gl w)")
    (simp_all add: Texture_ImageData_bool_Cons Texture_ImageData_bool_Nil new_calls_def)

lemma ctor1_new_calls:
  "new_calls w (snd (Texture_ImageData imageData w)) =
     ctor_calls (take 1 (pending (gl w))) (tex (fst (Texture_ImageData imageData w)))
       imageData (buffers w (img_data imageData))
     @ [ImageData_dispose_call (img_data imageData)]"
  using ctor_new_calls [of w imageData True]
  by (simp add: Texture_ImageData_as_bool case_prod_beta)

lemma ctor_buffers:
  "buffers (snd (snd (Texture_ImageData_bool imageData b w))) =
     (if b then (buffers w)(img_data imageData := None) else buffers w)"
  by (cases "pending (gl w)")
    (simp_all add: Texture_ImageData_bool_Cons Texture_ImageData_bool_Nil)

lemma ctor_image: "fst (snd (Texture_ImageData_bool imageData False w)) = imageData"
  by (cases "pending (gl w)")
    (simp_all add: Texture_ImageData_bool_Cons Texture_ImageData_bool_Nil)

lemma ctor_calls_extend:
  "calls (snd (snd (Texture_ImageData_bool imageData b w))) =
     calls w @ new_calls w (snd (snd (Texture_ImageData_bool imageData b w)))"
  by (cases "pending (gl w)")
    (simp_all add: Texture_ImageData_bool_Cons Texture_ImageData_bool_Nil new_calls_def)

text \<open>
  C3: for valid image data, on a context whose driver hands out the name \<open>n\<close>, the
  one-argument constructor makes exactly these calls, in this order: it generates one name
  and gets \<open>n\<close>, binds \<open>n\<close> to \<^verbatim>\<open>GL_TEXTURE_2D\<close>, sets both wrap modes to mirrored
  repeat, the minification filter to nearest and the magnification filter to linear,
  uploads the pixels with format RGB for 3 channels and RGBA for 4, generates the mipmaps,
  binds 0, and then disposes the image data. The texture holds \<open>n\<close>.
\<close>

theorem upload_sequence:
  assumes "valid_image imageData" and "pending (gl w) = n # ns"
  shows "(case Texture_ImageData imageData w of (t, w') \<Rightarrow>
     tex t = n \<and>
     new_calls w w' =
       [GlGenTextures 1 [n],
        GlBindTexture GL_TEXTURE_2D n,
        GlTexParameteri GL_TEXTURE_2D GL_TEXTURE_WRAP_S GL_MIRRORED_REPEAT,
        GlTexParameteri GL_TEXTURE_2D GL_TEXTURE_WRAP_T GL_MIRRORED_REPEAT,
        GlTexParameteri GL_TEXTURE_2D GL_TEXTURE_MIN_FILTER GL_NEAREST,
        GlTexParameteri GL_TEXTURE_2D GL_TEXTURE_MAG_FILTER GL_LINEAR,
        GlTexImage2D
          \<lparr>u_target = GL_TEXTURE_2D, u_level = 0,
           u_internalformat = (if img_nChannels imageData = 3 then GL_RGB else GL_RGBA),
           u_width = img_width imageData, u_height = img_height imageData, u_border = 0,
           u_format = (if img_nChannels imageData = 3 then GL_RGB else GL_RGBA),
           u_type = GL_UNSIGNED_BYTE, u_pixels = img_data imageData,
           u_bytes = buffers w (img_data imageData)\<rparr>,
        GlGenerateMipmap GL_TEXTURE_2D,
        GlBindTexture GL_TEXTURE_2D 0,
        ImageData_dispose_call (img_data imageData)])"
  using assms
  by (auto simp: Texture_ImageData_as_bool Texture_ImageData_bool_Cons new_calls_def
      ctor_calls_def valid_image_def)

theorem upload_sequence_witness:
  "valid_image example_image \<and> pending (gl example_world) = [1, 2] \<and>
   tex (fst (Texture_ImageData example_image example_world)) = 1 \<and>
   new_calls example_world (snd (Texture_ImageData example_image example_world)) =
       [GlGenTextures 1 [1],
        GlBindTexture GL_TEXTURE_2D 1,
        GlTexParameteri GL_TEXTURE_2D GL_TEXTURE_WRAP_S GL_MIRRORED_REPEAT,
        GlTexParameteri GL_TEXTURE_2D GL_TEXTURE_WRAP_T GL_MIRRORED_REPEAT,
        GlTexParameteri GL_TEXTURE_2D GL_TEXTURE_MIN_FILTER GL_NEAREST,
        GlTexParameteri GL_TEXTURE_2D GL_TEXTURE_MAG_FILTER GL_LINEAR,
        GlTexImage2D
          \<lparr>u_target = GL_TEXTURE_2D, u_level = 0, u_internalformat = GL_RGB,
           u_width = 2, u_height = 1, u_border = 0, u_format = GL_RGB,
           u_type = GL_UNSIGNED_BYTE, u_pixels = 16,
           u_bytes = Some [255, 0, 0, 0, 255, 0]\<rparr>,
        GlGenerateMipmap GL_TEXTURE_2D,
        GlBindTexture GL_TEXTURE_2D 0,
        ImageData_dispose_call 16]"
  using upload_sequence [of example_image example_world 1 "[2]"]
  by (simp add: example_defs valid_image_def split: prod.splits)

text \<open>
  C4: for valid image data, the one-argument constructor disposes the source buffer: the
  buffer the image data points to is gone afterwards and every other buffer is as before,
  \<^verbatim>\<open>ImageData::dispose()\<close> is called once, as the last call, and the upload is among
  the calls before it. No flag or branch guards the call.
\<close>

theorem source_buffer_disposed:
  assumes "valid_image imageData"
  shows "(case Texture_ImageData imageData w of (t, w') \<Rightarrow>
      buffers w' = (buffers w)(img_data imageData := None) \<and>
      disposals (new_calls w w') = [img_data imageData] \<and>
      last (new_calls w w') = ImageData_dispose_call (img_data imageData) \<and>
      length (uploads (butlast (new_calls w w'))) = 1)"
  using ctor1_new_calls [of w imageData] ctor_buffers [of imageData True w]
  by (simp add: case_prod_beta disposals_append disposals_ctor_calls
      uploads_ctor_calls butlast_append)
    (simp add: Texture_ImageData_as_bool case_prod_beta)

theorem source_buffer_disposed_witness:
  "valid_image example_image \<and>
   buffers example_world 16 = Some [255, 0, 0, 0, 255, 0] \<and>
   buffers (snd (Texture_ImageData example_image example_world)) 16 = None \<and>
   disposals (new_calls example_world (snd (Texture_ImageData example_image example_world))) = [16]"
  using source_buffer_disposed [of example_image example_world]
  by (simp add: example_defs valid_image_def case_prod_beta)

text \<open>
  C5: for valid image data and either value of the flag, the two-argument constructor
  calls \<^verbatim>\<open>ImageData::dispose()\<close> exactly when the flag is true, and the source buffer is
  gone afterwards exactly then; with the flag false the caller's image data and all buffers
  are as before. So a second texture can be built from the same image data: both uploads
  read the same bytes.
\<close>

theorem dispose_source_iff_flag:
  assumes "valid_image imageData"
  shows "(case Texture_ImageData_bool imageData disposeImageData w of (t, imageData', w') \<Rightarrow>
      disposals (new_calls w w') = (if disposeImageData then [img_data imageData] else []) \<and>
      buffers w' =
        (if disposeImageData then (buffers w)(img_data imageData := None) else buffers w) \<and>
      (disposeImageData \<or> imageData' = imageData)) \<and>
    (case Texture_ImageData_bool imageData False w of (t1, i1, w1) \<Rightarrow>
      (case Texture_ImageData_bool i1 False w1 of (t2, i2, w2) \<Rightarrow>
         i2 = imageData \<and> buffers w2 = buffers w \<and>
         map u_bytes (uploads (new_calls w w2)) =
           [buffers w (img_data imageData), buffers w (img_data imageData)]))"
proof -
  let ?r = "Texture_ImageData_bool imageData disposeImageData w"
  let ?r1 = "Texture_ImageData_bool imageData False w"
  let ?w1 = "snd (snd ?r1)"
  let ?r2 = "Texture_ImageData_bool imageData False ?w1"
  let ?w2 = "snd (snd ?r2)"
  have a: "disposals (new_calls w (snd (snd ?r))) =
      (if disposeImageData then [img_data imageData] else [])"
    by (simp add: ctor_new_calls disposals_append disposals_ctor_calls)
  have b: "disposeImageData \<or> fst (snd ?r) = imageData"
    by (cases disposeImageData) (simp_all add: ctor_image)
  have c1: "calls ?w1 = calls w @ new_calls w ?w1"
    by (rule ctor_calls_extend)
  have c2: "calls ?w2 = calls ?w1 @ new_calls ?w1 ?w2"
    by (rule ctor_calls_extend)
  have "new_calls w ?w2 = new_calls w ?w1 @ new_calls ?w1 ?w2"
    using c1 c2 by (metis append.assoc new_calls_append)
  then have d: "map u_bytes (uploads (new_calls w ?w2)) =
      [buffers w (img_data imageData), buffers w (img_data imageData)]"
    by (simp add: uploads_append ctor_new_calls uploads_ctor_calls ctor_buffers)
  have e: "buffers ?w2 = buffers w"
    by (simp add: ctor_buffers)
  show ?thesis
    using a b d e by (simp add: case_prod_beta ctor_buffers ctor_image)
qed

theorem dispose_source_iff_flag_witness:
  "valid_image example_image \<and>
   buffers (snd (snd (Texture_ImageData_bool example_image True example_world))) 16 = None \<and>
   buffers (snd (snd (Texture_ImageData_bool example_image False example_world))) 16 =
     Some [255, 0, 0, 0, 255, 0] \<and>
   fst (snd (Texture_ImageData_bool example_image False example_world)) = example_image \<and>
   disposals (new_calls example_world
     (snd (snd (Texture_ImageData_bool example_image True example_world)))) = [16] \<and>
   disposals (new_calls example_world
     (snd (snd (Texture_ImageData_bool example_image False example_world)))) = []"
  using
    dispose_source_iff_flag
      [where imageData = example_image and disposeImageData = True and w = example_world]
    dispose_source_iff_flag
      [where imageData = example_image and disposeImageData = False and w = example_world]
  by (simp add: example_defs valid_image_def case_prod_beta)

text \<open>
  C6: for valid image data, the one-argument constructor and the two-argument constructor
  with the flag true return the same texture and leave the same world: the same OpenGL
  state, the same buffers (the source buffer disposed in both) and the same sequence of
  calls.
\<close>

theorem constructors_agree:
  assumes "valid_image imageData"
  shows "Texture_ImageData imageData w =
     (case Texture_ImageData_bool imageData True w of (t, imageData', w') \<Rightarrow> (t, w'))"
  by (rule Texture_ImageData_as_bool)

theorem constructors_agree_witness:
  "valid_image example_image \<and>
   Texture_ImageData example_image example_world =
     (fst (Texture_ImageData_bool example_image True example_world),
      snd (snd (Texture_ImageData_bool example_image True example_world))) \<and>
   tex (fst (Texture_ImageData example_image example_world)) = 1 \<and>
   length (calls (snd (Texture_ImageData example_image example_world))) = 10"
  using constructors_agree [of example_image example_world]
  by (simp add: example_defs valid_image_def case_prod_beta Texture_ImageData_bool_Cons
      ctor_calls_def)

text \<open>
  C10: whatever the image data, both constructors make one upload, and its internal format
  and its format are RGBA when the channel count is 4 and RGB for every other count, the
  counts 1 and 2 among them.
\<close>

theorem format_by_channels:
  "map (\<lambda>u. (u_internalformat u, u_format u))
       (uploads (new_calls w (snd (Texture_ImageData imageData w)))) =
     [if img_nChannels imageData = 4 then (GL_RGBA, GL_RGBA) else (GL_RGB, GL_RGB)] \<and>
   map (\<lambda>u. (u_internalformat u, u_format u))
       (uploads (new_calls w (snd (snd (Texture_ImageData_bool imageData disposeImageData w))))) =
     [if img_nChannels imageData = 4 then (GL_RGBA, GL_RGBA) else (GL_RGB, GL_RGB)]"
  by (simp add: ctor_new_calls ctor1_new_calls uploads_append uploads_ctor_calls)

theorem format_by_channels_witness:
  "map (\<lambda>u. (u_internalformat u, u_format u))
       (uploads (new_calls example_world
          (snd (Texture_ImageData (example_image\<lparr>img_nChannels := 1\<rparr>) example_world)))) =
     [(GL_RGB, GL_RGB)] \<and>
   map (\<lambda>u. (u_internalformat u, u_format u))
       (uploads (new_calls example_world
          (snd (snd (Texture_ImageData_bool (example_image\<lparr>img_nChannels := 2\<rparr>) False
                       example_world))))) =
     [(GL_RGB, GL_RGB)] \<and>
   map (\<lambda>u. (u_internalformat u, u_format u))
       (uploads (new_calls example_world
          (snd (Texture_ImageData (example_image\<lparr>img_nChannels := 4\<rparr>) example_world)))) =
     [(GL_RGBA, GL_RGBA)]"
  using format_by_channels [of example_world "example_image\<lparr>img_nChannels := 1\<rparr>" False]
    format_by_channels [of example_world "example_image\<lparr>img_nChannels := 2\<rparr>" False]
    format_by_channels [of example_world "example_image\<lparr>img_nChannels := 4\<rparr>" False]
  by (simp add: example_defs)

section \<open>Disposal twice\<close>

lemma glDeleteTextures1_zero:
  "glDeleteTextures1 0 w = w\<lparr>calls := calls w @ [GlDeleteTextures 1 [0]]\<rparr>"
  by (simp add: glDeleteTextures1_def emit_def)

lemma Window_dispose_idem: "Window_dispose (Window_dispose win) = Window_dispose win"
  by (simp add: Window_dispose_def split: option.splits)

lemma Window_dispose_handle: "p_window (Window_dispose win) = None"
  by (simp add: Window_dispose_def split: option.splits)

text \<open>
  C2: a second \<^verbatim>\<open>dispose()\<close> after a first changes nothing. For a texture: the handle
  is 0 after the first and after the second call, the texture object is the same, the
  OpenGL state (the names in use among it) and the buffers are the same, and the one call
  the second \<^verbatim>\<open>dispose()\<close> makes is \<^verbatim>\<open>glDeleteTextures\<close> on the name 0, which
  OpenGL ignores. For a window: the second \<^verbatim>\<open>dispose()\<close> returns the window as the
  first left it, with the null handle. Neither function has an error result.
\<close>

theorem dispose_twice:
  "(case Texture_dispose t w of (t1, w1) \<Rightarrow>
      (case Texture_dispose t1 w1 of (t2, w2) \<Rightarrow>
         getTextureID t1 = 0 \<and> getTextureID t2 = 0 \<and> t2 = t1 \<and>
         gl w2 = gl w1 \<and> buffers w2 = buffers w1 \<and>
         new_calls w1 w2 = [GlDeleteTextures 1 [0]])) \<and>
   Window_dispose (Window_dispose win) = Window_dispose win \<and>
   p_window (Window_dispose win) = None \<and>
   p_window (Window_dispose (Window_dispose win)) = None"
  by (simp add: Texture_dispose_eq glDeleteTextures1_zero getTextureID_def new_calls_def
      Window_dispose_idem Window_dispose_handle)

theorem dispose_twice_witness:
  "names (gl (snd (Texture_ImageData example_image example_world))) = [1] \<and>
   names (gl (snd (Texture_dispose (fst (Texture_ImageData example_image example_world))
                     (snd (Texture_ImageData example_image example_world))))) = [] \<and>
   (case Texture_dispose (fst (Texture_ImageData example_image example_world))
           (snd (Texture_ImageData example_image example_world)) of
      (t1, w1) \<Rightarrow>
        (case Texture_dispose t1 w1 of
           (t2, w2) \<Rightarrow> tex t2 = 0 \<and> names (gl w2) = [] \<and> t2 = t1)) \<and>
   Window_dispose (Window_dispose (fst example_window)) = Window_dispose (fst example_window) \<and>
   p_window (fst example_window) \<noteq> None \<and>
   p_window (Window_dispose (fst example_window)) = None"
  using dispose_twice
    [of "fst (Texture_ImageData example_image example_world)"
        "snd (Texture_ImageData example_image example_world)" "fst example_window"]
  by (simp add: example_defs texture_defs gl_defs img_defs Let_def example_window_def
      Window_dispose_def)

section \<open>Windows\<close>

lemmas window_defs = Window_init_def isOpen_def close_def setFullscreen_def setWindowed_def
  toggleFullscreen_def setInputHandler_def setCamera_def startRender_def endRender_def
  Window_dispose_def Window_ctor_def Window_default_def

lemma example_window_init:
  "Window_init True (Window_default, example_process) = Inr example_window"
  by (simp add: window_defs example_window_def example_process_def)

lemma init_ready:
  "\<not> initialized (fst s) \<Longrightarrow> Window_init created s = Inr s0 \<Longrightarrow> ready s0"
  by (cases s) (auto simp: Window_init_def ready_def split: if_splits option.splits)

subsection \<open>Open until closed\<close>

lemma init_open_inv:
  "\<not> initialized (fst s) \<Longrightarrow> Window_init created s = Inr s0 \<Longrightarrow> open_inv s0"
  by (cases s) (auto simp: Window_init_def open_inv_def split: if_splits)

text \<open>No trampoline touches the handle or the flag.\<close>

lemma CB_framebufferSize_handle:
  "CB_framebufferSize fdiv w h s = Inr s' \<Longrightarrow>
     p_window (fst s') = p_window (fst s) \<and> initialized (fst s') = initialized (fst s)"
  by (cases s)
    (auto simp: CB_framebufferSize_def Let_def split: option.splits if_splits sum.splits)

lemma CB_input_handle:
  "CB_input ev s = Inr s' \<Longrightarrow>
     p_window (fst s') = p_window (fst s) \<and> initialized (fst s') = initialized (fst s)"
  by (cases s) (auto simp: CB_input_def split: option.splits)

lemma dispatch_handle:
  "dispatch fdiv ev s = Inr s' \<Longrightarrow>
     p_window (fst s') = p_window (fst s) \<and> initialized (fst s') = initialized (fst s)"
  by (cases ev) (auto dest: CB_framebufferSize_handle CB_input_handle)

lemma poll_handle:
  "poll fdiv evs s = Inr s' \<Longrightarrow>
     p_window (fst s') = p_window (fst s) \<and> initialized (fst s') = initialized (fst s)"
proof (induction evs arbitrary: s)
  case Nil
  then show ?case by simp
next
  case (Cons ev evs)
  then obtain s1 where d: "dispatch fdiv ev s = Inr s1" and r: "poll fdiv evs s1 = Inr s'"
    by (auto split: sum.splits)
  from Cons.IH [OF r] dispatch_handle [OF d] show ?case by simp
qed

lemma step_open_inv:
  assumes "open_inv s" and "x \<noteq> Close" and "x \<noteq> Dispose" and "step fdiv x s = Inr s'"
  shows "open_inv s'"
proof (cases x)
  case (StartRender evs)
  with assms(4) have "poll fdiv evs s = Inr s'"
    by (auto simp: startRender_def split: if_splits)
  from poll_handle [OF this] assms(1) show ?thesis by (simp add: open_inv_def)
next
  case (Init created)
  with assms show ?thesis
    by (cases s) (auto simp: Window_init_def open_inv_def split: if_splits)
next
  case SetFullscreen
  with assms show ?thesis
    by (cases s) (auto simp: setFullscreen_def open_inv_def split: option.splits prod.splits)
next
  case SetWindowed
  with assms show ?thesis
    by (cases s) (auto simp: setWindowed_def open_inv_def split: option.splits)
next
  case ToggleFullscreen
  with assms show ?thesis
    by (cases s)
      (auto simp: toggleFullscreen_def setWindowed_def setFullscreen_def open_inv_def
        split: option.splits prod.splits if_splits)
next
  case EndRender
  with assms show ?thesis
    by (auto simp: endRender_def split: if_splits)
next
  case (SetInputHandler r)
  with assms show ?thesis
    by (auto simp: setInputHandler_def open_inv_def split: prod.splits)
next
  case (SetCamera c)
  with assms show ?thesis
    by (auto simp: setCamera_def open_inv_def split: prod.splits)
next
  case Close
  with assms show ?thesis by simp
next
  case Dispose
  with assms show ?thesis by simp
qed

lemma run_open_inv:
  assumes "open_inv s" and "Close \<notin> set xs" and "Dispose \<notin> set xs"
    and "run fdiv xs s = Inr s'"
  shows "open_inv s'"
  using assms
proof (induction xs arbitrary: s)
  case Nil
  then show ?case by simp
next
  case (Cons x xs)
  then obtain s1 where st: "step fdiv x s = Inr s1" and r: "run fdiv xs s1 = Inr s'"
    by (auto split: sum.splits)
  from Cons.prems have "x \<noteq> Close" "x \<noteq> Dispose" by auto
  from step_open_inv [OF Cons.prems(1) this st] have "open_inv s1" .
  with Cons.IH [of s1] Cons.prems r show ?case by simp
qed

lemma open_inv_isOpen: "open_inv s \<Longrightarrow> isOpen (fst s) = Inr True"
  by (auto simp: open_inv_def isOpen_def split: option.splits)

lemma open_inv_close:
  "open_inv s \<Longrightarrow> \<exists>s'. close s = Inr s' \<and> isOpen (fst s') = Inr False"
  by (cases s) (auto simp: open_inv_def isOpen_def close_def split: option.splits)

text \<open>
  C7: take a window that is not initialized and on which \<^verbatim>\<open>init()\<close> succeeds, and
  then any sequence of operations with no \<^verbatim>\<open>close()\<close> and no \<^verbatim>\<open>dispose()\<close> among
  them. In the state reached \<^verbatim>\<open>isOpen()\<close> returns true, and \<^verbatim>\<open>close()\<close> followed at
  once by \<^verbatim>\<open>isOpen()\<close>, with no render call between them, returns false.
\<close>

theorem open_until_close:
  assumes "\<not> initialized (fst s)" and "Window_init created s = Inr s0"
    and "Close \<notin> set xs" and "Dispose \<notin> set xs" and "run fdiv xs s0 = Inr s1"
  shows "isOpen (fst s1) = Inr True \<and>
         (\<exists>s2. close s1 = Inr s2 \<and> isOpen (fst s2) = Inr False)"
proof -
  have "open_inv s0" using assms(1,2) by (rule init_open_inv)
  then have "open_inv s1" using assms(3-5) by (rule run_open_inv)
  then show ?thesis using open_inv_isOpen open_inv_close by blast
qed

theorem open_until_close_witness:
  "\<not> initialized (fst (Window_default, example_process)) \<and>
   Window_init True (Window_default, example_process) = Inr example_window \<and>
   Close \<notin> set example_ops \<and> Dispose \<notin> set example_ops \<and>
   (\<exists>s1. run real_div example_ops example_window = Inr s1 \<and>
         isOpen (fst s1) = Inr True \<and>
         (\<exists>s2. close s1 = Inr s2 \<and> isOpen (fst s2) = Inr False))"
proof -
  have a: "\<not> initialized (fst (Window_default, example_process))"
    by (simp add: window_defs)
  have b: "Window_init True (Window_default, example_process) = Inr example_window"
    by (rule example_window_init)
  have c: "Close \<notin> set example_ops" and d: "Dispose \<notin> set example_ops"
    by (simp_all add: example_ops_def)
  obtain s1 where e: "run real_div example_ops example_window = Inr s1"
    by (simp add: example_ops_def window_defs example_window_def example_process_def
        CB_framebufferSize_def CB_input_def isPerspective_def setAspectRatio_def Let_def)
  have f: "isOpen (fst s1) = Inr True \<and>
      (\<exists>s2. close s1 = Inr s2 \<and> isOpen (fst s2) = Inr False)"
    by (rule open_until_close [OF a b c d e])
  have "\<exists>s1. run real_div example_ops example_window = Inr s1 \<and> isOpen (fst s1) = Inr True \<and>
          (\<exists>s2. close s1 = Inr s2 \<and> isOpen (fst s2) = Inr False)"
    by (rule exI [of _ s1]) (rule conjI [OF e f])
  with a b c d show ?thesis
    by blast
qed

subsection \<open>Fullscreen and back\<close>

text \<open>
  C8: on an initialized window, fullscreen or windowed, two calls of
  \<^verbatim>\<open>toggleFullscreen()\<close> in a row both succeed and leave the logical width, the logical
  height and the fullscreen flag as they were; the flag is the other one in between.
\<close>

theorem toggle_twice:
  assumes "ready s"
  shows "\<exists>s1 s2. toggleFullscreen s = Inr s1 \<and> toggleFullscreen s1 = Inr s2 \<and>
           width (fst s2) = width (fst s) \<and> height (fst s2) = height (fst s) \<and>
           fullscreen (fst s2) = fullscreen (fst s) \<and> fullscreen (fst s1) \<noteq> fullscreen (fst s)"
proof -
  obtain win p where s: "s = (win, p)" by (cases s)
  from assms s obtain nw mw mh
    where h: "p_window win = Some nw" "primaryMonitorInfo p = Some (mw, mh)"
    by (auto simp: ready_def)
  show ?thesis
  proof (cases "fullscreen win")
    case True
    with s h show ?thesis
      by (simp add: toggleFullscreen_def setFullscreen_def setWindowed_def)
  next
    case False
    with s h show ?thesis
      by (simp add: toggleFullscreen_def setFullscreen_def setWindowed_def)
  qed
qed

theorem toggle_twice_witness:
  "ready example_window \<and>
   (\<exists>s1 s2. toggleFullscreen example_window = Inr s1 \<and> toggleFullscreen s1 = Inr s2 \<and>
      width (fst s2) = 800 \<and> height (fst s2) = 600 \<and>
      fullscreen (fst s2) = False \<and> fullscreen (fst s1) = True)"
proof -
  have r: "ready example_window"
    by (simp add: ready_def example_window_def example_process_def)
  from toggle_twice [OF r] r show ?thesis
    by (simp add: example_window_def)
qed

subsection \<open>Resize and the camera\<close>




end
